theory Spec2Isabelle
  imports Complex_Main "HOL-Library.Multiset" "HOL-Library.Sublist"
begin

section \<open>The asymmetry score engine of the company hunter\<close>

text \<open>
  A shallow embedding of the score engine (the file that starts with
  \<^verbatim>\<open>// Asymmetry Score Engine\<close>) and of the types and constants it imports.

  Numbers: a TypeScript \<^verbatim>\<open>number\<close> is modelled as a rational, with exact arithmetic.
  All thresholds of the engine are compared exactly; \<^verbatim>\<open>NaN\<close> and the infinities are
  not represented (the engine's guards \<^verbatim>\<open>x || 0\<close>, \<^verbatim>\<open>futureTAM > 0 && marketCap > 0\<close>
  keep every division away from zero, and the weights are a positive constant table).
  An optional field \<^verbatim>\<open>f?: T\<close> is a \<open>T option\<close>; \<open>None\<close> is \<^verbatim>\<open>undefined\<close>.
  The type \<^verbatim>\<open>FutureCategory\<close> is a union of string literals that is erased at run
  time, so the field holds a string.
\<close>

type_synonym number = rat

subsection \<open>Types (lib/types)\<close>

record ScoreRationale =
  r_founderConviction :: string
  r_aiDisruption :: string
  r_whiteSpace :: string
  r_asymmetry :: string

record AsymmetryScore =
  founderConviction :: number
  aiDisruption :: number
  whiteSpace :: number
  asymmetry :: number
  total :: number
  score_rationale :: "ScoreRationale option"

record Company =
  company_id :: "number option"
  ticker :: string
  name :: string
  cik :: "string option"
  marketCap :: "number option"
  price :: "number option"
  priceChange30d :: "number option"
  volume :: "number option"
  sector :: "string option"
  industry :: "string option"
  futureCategory :: string
  revenue :: "number option"
  revenueGrowth :: "number option"
  grossMargin :: "number option"
  cashPosition :: "number option"
  debtToEquity :: "number option"
  insiderOwnership :: "number option"
  insiderBuying90d :: "number option"
  founderShares :: "number option"
  founderActive :: "bool option"
  currentTAM :: "number option"
  futureTAM :: "number option"
  tamMultiple :: "number option"
  tamRationale :: "string option"
  scores :: "AsymmetryScore option"
  dataQuality :: "number option"
  lastUpdated :: "int option"

text \<open>The seven string literals of the type \<^verbatim>\<open>FutureCategory\<close>.\<close>

definition FutureCategory_values :: "string list" where
  "FutureCategory_values =
     [''intelligence-infrastructure'', ''robotics-autonomous'', ''synthetic-biology'',
      ''materials-simulation'', ''advanced-energy'', ''national-security-space'', ''other'']"

subsection \<open>Constants (lib/constants)\<close>

record ScoreWeights =
  w_founderConviction :: number
  w_aiDisruption :: number
  w_whiteSpace :: number
  w_asymmetry :: number

definition SCORE_WEIGHTS :: ScoreWeights where
  "SCORE_WEIGHTS =
     \<lparr>w_founderConviction = 1, w_aiDisruption = 1, w_whiteSpace = 1, w_asymmetry = 1\<rparr>"

subsection \<open>JavaScript primitives the engine uses\<close>

text \<open>\<^verbatim>\<open>x || d\<close> on an optional number: \<^verbatim>\<open>undefined\<close> and \<^verbatim>\<open>0\<close> are falsy.\<close>

definition num_or :: "number option \<Rightarrow> number \<Rightarrow> number" where
  "num_or x d = (case x of None \<Rightarrow> d | Some v \<Rightarrow> if v = 0 then d else v)"

text \<open>\<^verbatim>\<open>Array.prototype.join\<close>.\<close>

fun join :: "string \<Rightarrow> string list \<Rightarrow> string" where
  "join sep [] = []"
| "join sep [x] = x"
| "join sep (x # y # ys) = x @ sep @ join sep (y # ys)"

text \<open>Decimal digits of a natural number, most significant first.\<close>

definition digit_char :: "nat \<Rightarrow> char" where
  "digit_char d = ''0123456789'' ! d"

fun digits :: "nat \<Rightarrow> string" where
  "digits n = (if n < 10 then [digit_char n] else digits (n div 10) @ [digit_char (n mod 10)])"

declare digits.simps [simp del]

text \<open>
  \<^verbatim>\<open>Number.prototype.toFixed(d)\<close>: the sign, then the magnitude rounded to \<open>d\<close>
  decimals (the larger candidate on a tie), the fraction padded with zeros.
  (Magnitudes of \<^verbatim>\<open>1e21\<close> and more, which JavaScript prints in exponent form, do not
  occur in the properties below.)
\<close>

definition toFixed :: "number \<Rightarrow> nat \<Rightarrow> string" where
  "toFixed x d =
     (let n = nat \<lfloor>\<bar>x\<bar> * 10 ^ d + 1 / 2\<rfloor>;
          ip = digits (n div 10 ^ d);
          fp = digits (n mod 10 ^ d);
          m = (if d = 0 then ip
               else ip @ ''.'' @ replicate (d - length fp) (CHR ''0'') @ fp)
      in if x < 0 then ''-'' @ m else m)"

text \<open>\<^verbatim>\<open>Math.round\<close>: the nearest integer, a tie going up.\<close>

definition Math_round :: "number \<Rightarrow> number" where
  "Math_round x = of_int \<lfloor>x + 1 / 2\<rfloor>"

subsection \<open>The factor scorers\<close>

text \<open>
  Every scorer keeps two local variables, \<^verbatim>\<open>score\<close> and \<^verbatim>\<open>factors\<close>, and updates them
  block by block. Each block of the source is a function on the pair
  \<open>(score, factors)\<close>; \<^verbatim>\<open>factors.push(s)\<close> appends \<open>s\<close>.
\<close>

type_synonym acc = "number \<times> string list"

record ScoreResult =
  score :: number
  rationale :: string

text \<open>The common \<^verbatim>\<open>return\<close> statement, with the scorer's default rationale.\<close>

definition finish :: "string \<Rightarrow> acc \<Rightarrow> ScoreResult" where
  "finish dflt = (\<lambda>(score, factors).
     \<lparr>score = min score 10,
      rationale = (if length factors > 0 then join ''. '' factors else dflt)\<rparr>)"

paragraph \<open>scoreWhiteSpace\<close>

definition ws_currentTAM :: "Company \<Rightarrow> acc \<Rightarrow> acc" where
  "ws_currentTAM company = (\<lambda>(score, factors).
     let currentTAM = num_or (currentTAM company) 0 in
     if currentTAM > 0 then
       (if currentTAM < 1000000000 then
          (score + 4, factors @ [''Very small current TAM (<$1B)''])
        else if currentTAM < 5000000000 then
          (score + 3, factors @ [''Small current TAM (<$5B)''])
        else if currentTAM < 10000000000 then
          (score + 2, factors @ [''Moderate current TAM (<$10B)''])
        else
          (score + 1, factors @ [''Established market'']))
     else
       (score + 3, factors @ [''Undefined/emerging market'']))"

definition ws_capture :: "Company \<Rightarrow> acc \<Rightarrow> acc" where
  "ws_capture company = (\<lambda>(score, factors).
     let futureTAM = num_or (futureTAM company) 0;
         marketCap = num_or (marketCap company) 0 in
     if futureTAM > 0 \<and> marketCap > 0 then
       (let captureRatio = marketCap / futureTAM in
        if captureRatio < 1 / 1000 then
          (score + 3, factors @ [''Market cap is <0.1% of future TAM''])
        else if captureRatio < 1 / 100 then
          (score + 2, factors @ [''Market cap is <1% of future TAM''])
        else if captureRatio < 5 / 100 then
          (score + 1, factors @ [''Significant room for market capture''])
        else (score, factors))
     else (score, factors))"

definition ws_smallCap :: "Company \<Rightarrow> acc \<Rightarrow> acc" where
  "ws_smallCap company = (\<lambda>(score, factors).
     let marketCap = num_or (marketCap company) 0 in
     if marketCap > 0 then
       (if marketCap < 1000000000 then
          (score + 2, factors @ [''Small cap (<$1B) - less institutional attention''])
        else if marketCap < 3000000000 then
          (score + 1, factors @ [''Small-mid cap - emerging from obscurity''])
        else (score, factors))
     else (score, factors))"

definition scoreWhiteSpace :: "Company \<Rightarrow> ScoreResult" where
  "scoreWhiteSpace company =
     finish ''Market positioning unclear''
       (ws_smallCap company (ws_capture company (ws_currentTAM company (0, []))))"

paragraph \<open>scoreFounderConviction\<close>

definition fc_ownership :: "Company \<Rightarrow> acc \<Rightarrow> acc" where
  "fc_ownership company = (\<lambda>(score, factors).
     let ownership = num_or (insiderOwnership company) 0 in
     if ownership > 30 then
       (score + 4, factors @ [''High insider ownership ('' @ toFixed ownership 1 @ ''%)''])
     else if ownership > 20 then
       (score + 3, factors @ [''Strong insider ownership ('' @ toFixed ownership 1 @ ''%)''])
     else if ownership > 10 then
       (score + 2, factors @ [''Moderate insider ownership ('' @ toFixed ownership 1 @ ''%)''])
     else if ownership > 5 then
       (score + 1, factors @ [''Some insider ownership ('' @ toFixed ownership 1 @ ''%)''])
     else
       (score, factors @ [''Low insider ownership ('' @ toFixed ownership 1 @ ''%)'']))"

definition fc_buying :: "Company \<Rightarrow> acc \<Rightarrow> acc" where
  "fc_buying company = (\<lambda>(score, factors).
     let buying = num_or (insiderBuying90d company) 0 in
     if buying > 1000000 then
       (score + 3, factors @ [''Significant insider buying >$1M in 90d''])
     else if buying > 100000 then
       (score + 2, factors @ [''Notable insider buying in 90d''])
     else if buying > 0 then
       (score + 1, factors @ [''Some insider buying in 90d''])
     else if buying < - 100000 then
       (score, factors @ [''Warning: Insider selling detected''])
     else (score, factors))"

definition fc_founder :: "Company \<Rightarrow> acc \<Rightarrow> acc" where
  "fc_founder company = (\<lambda>(score, factors).
     if founderActive company = Some True then
       (score + 3, factors @ [''Founder-led company''])
     else (score, factors))"

definition scoreFounderConviction :: "Company \<Rightarrow> ScoreResult" where
  "scoreFounderConviction company =
     finish ''Insufficient data''
       (fc_founder company (fc_buying company (fc_ownership company (0, []))))"

paragraph \<open>scoreAIDisruption\<close>

text \<open>
  The local table \<^verbatim>\<open>categoryScores\<close>, an object literal with seven keys; reading a key
  it does not have gives \<^verbatim>\<open>undefined\<close>, unless the key names a property that every
  object inherits from \<^verbatim>\<open>Object.prototype\<close>. Those names are listed here; a category
  equal to one of them is outside the model, and no record of the declared type has one.
\<close>

definition Object_prototype_keys :: "string list" where
  "Object_prototype_keys =
     [''constructor'', ''hasOwnProperty'', ''isPrototypeOf'', ''propertyIsEnumerable'',
      ''toLocaleString'', ''toString'', ''valueOf'', ''__proto__'', ''__defineGetter__'',
      ''__defineSetter__'', ''__lookupGetter__'', ''__lookupSetter__'']"

definition categoryScores :: "string \<rightharpoonup> number" where
  "categoryScores = map_of
     [(''intelligence-infrastructure'', 3),
      (''robotics-autonomous'', 3),
      (''synthetic-biology'', 2),
      (''materials-simulation'', 3),
      (''advanced-energy'', 2),
      (''national-security-space'', 2),
      (''other'', 0)]"

definition ai_category :: "Company \<Rightarrow> acc \<Rightarrow> acc" where
  "ai_category company = (\<lambda>(score, factors).
     let categoryScore = num_or (categoryScores (futureCategory company)) 0 in
     if categoryScore > 0 then
       (score + categoryScore,
        factors @ [''Core AI-adjacent sector ('' @ futureCategory company @ '')''])
     else (score + categoryScore, factors))"

definition ai_tamMultiple :: "Company \<Rightarrow> acc \<Rightarrow> acc" where
  "ai_tamMultiple company = (\<lambda>(score, factors).
     let tamMultiple = num_or (tamMultiple company) 1 in
     if tamMultiple > 100 then
       (score + 4, factors @ [''Extreme TAM expansion potential ('' @ toFixed tamMultiple 0 @ ''x)''])
     else if tamMultiple > 50 then
       (score + 3, factors @ [''Large TAM expansion potential ('' @ toFixed tamMultiple 0 @ ''x)''])
     else if tamMultiple > 20 then
       (score + 2, factors @ [''Strong TAM expansion potential ('' @ toFixed tamMultiple 0 @ ''x)''])
     else if tamMultiple > 10 then
       (score + 1, factors @ [''Moderate TAM expansion ('' @ toFixed tamMultiple 0 @ ''x)''])
     else (score, factors))"

definition ai_technology :: "Company \<Rightarrow> acc \<Rightarrow> acc" where
  "ai_technology company = (\<lambda>(score, factors).
     if futureCategory company \<in> set
          [''intelligence-infrastructure'', ''robotics-autonomous'', ''materials-simulation'']
     then
       (score + 2, factors @ [''Direct AI compute/automation beneficiary''])
     else if futureCategory company \<in> set [''synthetic-biology'', ''advanced-energy''] then
       (score + 1, factors @ [''AI-enabled R&D acceleration''])
     else (score, factors))"

definition scoreAIDisruption :: "Company \<Rightarrow> ScoreResult" where
  "scoreAIDisruption company =
     finish ''Limited AI disruption potential''
       (ai_technology company (ai_tamMultiple company (ai_category company (0, []))))"

paragraph \<open>scoreAsymmetry\<close>

definition as_potential :: "Company \<Rightarrow> acc \<Rightarrow> acc" where
  "as_potential company = (\<lambda>(score, factors).
     let futureTAM = num_or (futureTAM company) 0;
         marketCap = num_or (marketCap company) 0 in
     if futureTAM > 0 \<and> marketCap > 0 then
       (let potentialValue = futureTAM * (1 / 10);
            potentialMultiple = potentialValue / marketCap in
        if potentialMultiple > 100 then
          (score + 4, factors @ [''100x+ potential at 10% market capture''])
        else if potentialMultiple > 50 then
          (score + 3, factors @ [''50x+ potential at 10% market capture''])
        else if potentialMultiple > 20 then
          (score + 2, factors @ [''20x+ potential at 10% market capture''])
        else if potentialMultiple > 10 then
          (score + 1, factors @ [''10x+ potential''])
        else (score, factors))
     else (score, factors))"

definition as_cash :: "Company \<Rightarrow> acc \<Rightarrow> acc" where
  "as_cash company = (\<lambda>(score, factors).
     let marketCap = num_or (marketCap company) 0;
         cashPosition = num_or (cashPosition company) 0 in
     if marketCap > 0 \<and> cashPosition > marketCap * (2 / 10) then
       (score + 2, factors @ [''Strong cash position (>20% of market cap)''])
     else if cashPosition > marketCap * (1 / 10) then
       (score + 1, factors @ [''Adequate cash runway''])
     else (score, factors))"

definition as_debt :: "Company \<Rightarrow> acc \<Rightarrow> acc" where
  "as_debt company = (\<lambda>(score, factors).
     let debtToEquity = num_or (debtToEquity company) 0 in
     if debtToEquity < 3 / 10 then
       (score + 1, factors @ [''Low debt burden''])
     else if debtToEquity > 15 / 10 then
       (score, factors @ [''Warning: High debt levels''])
     else (score, factors))"

definition as_grossMargin :: "Company \<Rightarrow> acc \<Rightarrow> acc" where
  "as_grossMargin company = (\<lambda>(score, factors).
     let grossMargin = num_or (grossMargin company) 0 in
     if grossMargin > 60 then
       (score + 1, factors @ [''High gross margins ('' @ toFixed (grossMargin * 100) 0 @ ''%)''])
     else (score, factors))"

definition as_revenueGrowth :: "Company \<Rightarrow> acc \<Rightarrow> acc" where
  "as_revenueGrowth company = (\<lambda>(score, factors).
     let revenueGrowth = num_or (revenueGrowth company) 0 in
     if revenueGrowth > 30 then
       (score + 1, factors @ [''Strong revenue growth ('' @ toFixed (revenueGrowth * 100) 0 @ ''%)''])
     else if revenueGrowth > 15 then
       (score + 1 / 2, factors @ [''Solid revenue growth''])
     else (score, factors))"

text \<open>The two blocks under the comment \<^verbatim>\<open>// Business quality indicators\<close>.\<close>

definition as_quality :: "Company \<Rightarrow> acc \<Rightarrow> acc" where
  "as_quality company acc = as_revenueGrowth company (as_grossMargin company acc)"

definition scoreAsymmetry :: "Company \<Rightarrow> ScoreResult" where
  "scoreAsymmetry company =
     finish ''Risk/reward profile unclear''
       (as_quality company (as_debt company (as_cash company (as_potential company (0, [])))))"

subsection \<open>The aggregate score\<close>

text \<open>
  The weighted average of \<^verbatim>\<open>calculateAsymmetryScore\<close>, as a function of the weight
  table and the four factor scores, and the rounding \<^verbatim>\<open>Math.round(total * 10) / 10\<close>.
\<close>

definition weightedAverage ::
  "ScoreWeights \<Rightarrow> number \<Rightarrow> number \<Rightarrow> number \<Rightarrow> number \<Rightarrow> number" where
  "weightedAverage w f a s y =
     (f * w_founderConviction w + a * w_aiDisruption w
        + s * w_whiteSpace w + y * w_asymmetry w)
     / (w_founderConviction w + w_aiDisruption w + w_whiteSpace w + w_asymmetry w)"

definition round1 :: "number \<Rightarrow> number" where
  "round1 x = Math_round (x * 10) / 10"

text \<open>\<^verbatim>\<open>calculateAsymmetryScore\<close>, with the imported weight table as a parameter.\<close>

definition calculateAsymmetryScoreWith :: "ScoreWeights \<Rightarrow> Company \<Rightarrow> AsymmetryScore" where
  "calculateAsymmetryScoreWith w company =
     (let founderResult = scoreFounderConviction company;
          aiResult = scoreAIDisruption company;
          whiteSpaceResult = scoreWhiteSpace company;
          asymmetryResult = scoreAsymmetry company;
          total = weightedAverage w (score founderResult) (score aiResult)
                    (score whiteSpaceResult) (score asymmetryResult)
      in \<lparr>founderConviction = score founderResult,
          aiDisruption = score aiResult,
          whiteSpace = score whiteSpaceResult,
          asymmetry = score asymmetryResult,
          total = round1 total,
          score_rationale = Some
            \<lparr>r_founderConviction = rationale founderResult,
             r_aiDisruption = rationale aiResult,
             r_whiteSpace = rationale whiteSpaceResult,
             r_asymmetry = rationale asymmetryResult\<rparr>\<rparr>)"

definition calculateAsymmetryScore :: "Company \<Rightarrow> AsymmetryScore" where
  "calculateAsymmetryScore = calculateAsymmetryScoreWith SCORE_WEIGHTS"

subsection \<open>Ranking\<close>

text \<open>
  \<^verbatim>\<open>Array.prototype.sort\<close> with a comparator is stable: \<open>a\<close> comes before \<open>b\<close> when
  \<open>cmp a b < 0\<close>, after it when \<open>cmp a b > 0\<close>, and two elements that compare equal
  keep their order. For a comparator that is a difference of keys this fixes the
  result; it is computed here by inserting from the right.
\<close>

fun insert_cmp :: "('a \<Rightarrow> 'a \<Rightarrow> number) \<Rightarrow> 'a \<Rightarrow> 'a list \<Rightarrow> 'a list" where
  "insert_cmp cmp x [] = [x]"
| "insert_cmp cmp x (y # ys) =
     (if cmp x y \<le> 0 then x # y # ys else y # insert_cmp cmp x ys)"

definition array_sort :: "('a \<Rightarrow> 'a \<Rightarrow> number) \<Rightarrow> 'a list \<Rightarrow> 'a list" where
  "array_sort cmp xs = foldr (insert_cmp cmp) xs []"

text \<open>\<^verbatim>\<open>c.scores?.total || 0\<close>.\<close>

definition totalOr0 :: "Company \<Rightarrow> number" where
  "totalOr0 c = num_or (map_option total (scores c)) 0"

text \<open>The comparator \<^verbatim>\<open>(a, b) => (b.scores?.total || 0) - (a.scores?.total || 0)\<close>.\<close>

definition rank_cmp :: "Company \<Rightarrow> Company \<Rightarrow> number" where
  "rank_cmp a b = totalOr0 b - totalOr0 a"

text \<open>The callback of \<^verbatim>\<open>map\<close>: a copy of the company with \<^verbatim>\<open>scores\<close> set.\<close>

definition withScores :: "Company \<Rightarrow> Company" where
  "withScores company = company\<lparr>scores := Some (calculateAsymmetryScore company)\<rparr>"

definition rankCompanies :: "Company list \<Rightarrow> Company list" where
  "rankCompanies companies = array_sort rank_cmp (map withScores companies)"

subsection \<open>Example records\<close>

text \<open>A company with the three required fields only.\<close>

definition bareCompany :: "string \<Rightarrow> string \<Rightarrow> Company" where
  "bareCompany t cat =
     \<lparr>company_id = None, ticker = t, name = t, cik = None, marketCap = None, price = None,
      priceChange30d = None, volume = None, sector = None, industry = None,
      futureCategory = cat, revenue = None, revenueGrowth = None, grossMargin = None,
      cashPosition = None, debtToEquity = None, insiderOwnership = None,
      insiderBuying90d = None, founderShares = None, founderActive = None,
      currentTAM = None, futureTAM = None, tamMultiple = None, tamRationale = None,
      scores = None, dataQuality = None, lastUpdated = None\<rparr>"

text \<open>Every optional field of the company is absent.\<close>

definition allAbsent :: "Company \<Rightarrow> bool" where
  "allAbsent c \<longleftrightarrow>
     company_id c = None \<and> cik c = None \<and> marketCap c = None \<and> price c = None \<and>
     priceChange30d c = None \<and> volume c = None \<and> sector c = None \<and> industry c = None \<and>
     revenue c = None \<and> revenueGrowth c = None \<and> grossMargin c = None \<and>
     cashPosition c = None \<and> debtToEquity c = None \<and> insiderOwnership c = None \<and>
     insiderBuying90d c = None \<and> founderShares c = None \<and> founderActive c = None \<and>
     currentTAM c = None \<and> futureTAM c = None \<and> tamMultiple c = None \<and>
     tamRationale c = None \<and> scores c = None \<and> dataQuality c = None \<and>
     lastUpdated c = None"

text \<open>The record of the white-space example: three optional fields present.\<close>

definition whiteSpaceExample :: Company where
  "whiteSpaceExample = (bareCompany ''WSX'' ''other'')
     \<lparr>currentTAM := Some 500000000, futureTAM := Some 50000000000,
      marketCap := Some 200000000\<rparr>"

text \<open>A company whose category is outside the seven values of the type.\<close>

definition unknownCategoryExample :: Company where
  "unknownCategoryExample = bareCompany ''QQQ'' ''quantum-computing''"

text \<open>Margin and growth given as fractions, and the same two given in percent.\<close>

definition fractionExample :: Company where
  "fractionExample = (bareCompany ''FRC'' ''other'')
     \<lparr>grossMargin := Some (65 / 100), revenueGrowth := Some (35 / 100)\<rparr>"

definition percentExample :: Company where
  "percentExample = (bareCompany ''PCT'' ''other'')
     \<lparr>grossMargin := Some 65, revenueGrowth := Some 35\<rparr>"

text \<open>A record whose four factor scores are 7, 9, 8 and 4, so that its total is 7.0.\<close>

definition sevenExample :: "string \<Rightarrow> Company" where
  "sevenExample t = (bareCompany t ''intelligence-infrastructure'')
     \<lparr>insiderOwnership := Some 35, insiderBuying90d := Some 2000000,
      tamMultiple := Some 120, currentTAM := Some 500000000,
      futureTAM := Some 150000000000, marketCap := Some 200000000\<rparr>"

text \<open>A weight table that is not uniform.\<close>

definition unevenWeights :: ScoreWeights where
  "unevenWeights =
     \<lparr>w_founderConviction = 2, w_aiDisruption = 1, w_whiteSpace = 1, w_asymmetry = 0\<rparr>"

subsection \<open>The rounding of the specification\<close>

text \<open>
  Written from the specification's words, for comparison with \<open>round1\<close>: rounding to
  the nearest integer with a tie going away from zero, and rounding to one decimal
  place with it.
\<close>

definition roundHalfAwayFromZero :: "number \<Rightarrow> number" where
  "roundHalfAwayFromZero x = sgn x * of_int \<lfloor>\<bar>x\<bar> + 1 / 2\<rfloor>"

definition round1_spec :: "number \<Rightarrow> number" where
  "round1_spec x = roundHalfAwayFromZero (x * 10) / 10"

section \<open>Properties\<close>

subsection \<open>What each block does to the score\<close>

lemma score_finish: "score (finish d acc) = min (fst acc) 10"
  by (simp add: finish_def case_prod_beta)

lemma rationale_finish:
  "rationale (finish d acc) = (if snd acc = [] then d else join ''. '' (snd acc))"
  by (simp add: finish_def case_prod_beta)

lemma num_or_0_nonneg: "num_or x 0 = 0 \<or> (\<exists>v. x = Some v \<and> v \<noteq> 0 \<and> num_or x 0 = v)"
  by (cases x) (auto simp: num_or_def)

lemma fc_ownership_fst: "fst acc \<le> fst (fc_ownership c acc) \<and> fst (fc_ownership c acc) \<le> fst acc + 4"
  by (simp add: fc_ownership_def case_prod_beta Let_def)

lemma fc_buying_fst: "fst acc \<le> fst (fc_buying c acc) \<and> fst (fc_buying c acc) \<le> fst acc + 3"
  by (simp add: fc_buying_def case_prod_beta Let_def)

lemma fc_founder_fst: "fst acc \<le> fst (fc_founder c acc) \<and> fst (fc_founder c acc) \<le> fst acc + 3"
  by (simp add: fc_founder_def case_prod_beta Let_def)

lemma categoryScores_cases:
  "num_or (categoryScores k) 0 = 0 \<or> num_or (categoryScores k) 0 = 2 \<or> num_or (categoryScores k) 0 = 3"
  by (simp add: categoryScores_def num_or_def)

lemma ai_category_fst: "fst acc \<le> fst (ai_category c acc)"
  using categoryScores_cases [of "futureCategory c"]
  by (auto simp add: ai_category_def case_prod_beta Let_def)

lemma ai_tamMultiple_fst: "fst acc \<le> fst (ai_tamMultiple c acc)"
  by (simp add: ai_tamMultiple_def case_prod_beta Let_def)

lemma ai_technology_fst: "fst acc \<le> fst (ai_technology c acc)"
  by (simp add: ai_technology_def case_prod_beta Let_def)

lemma ws_currentTAM_fst: "fst acc \<le> fst (ws_currentTAM c acc)"
  by (simp add: ws_currentTAM_def case_prod_beta Let_def)

lemma ws_capture_fst: "fst acc \<le> fst (ws_capture c acc)"
  by (simp add: ws_capture_def case_prod_beta Let_def)

lemma ws_smallCap_fst: "fst acc \<le> fst (ws_smallCap c acc)"
  by (simp add: ws_smallCap_def case_prod_beta Let_def)

lemma as_potential_fst: "fst acc \<le> fst (as_potential c acc)"
  by (simp add: as_potential_def case_prod_beta Let_def)

lemma as_cash_fst: "fst acc \<le> fst (as_cash c acc)"
  by (simp add: as_cash_def case_prod_beta Let_def)

lemma as_debt_fst: "fst acc \<le> fst (as_debt c acc)"
  by (simp add: as_debt_def case_prod_beta Let_def)

lemma as_quality_fst: "fst acc \<le> fst (as_quality c acc)"
proof -
  have "fst acc \<le> fst (as_grossMargin c acc)"
    by (simp add: as_grossMargin_def case_prod_beta Let_def)
  also have "\<dots> \<le> fst (as_revenueGrowth c (as_grossMargin c acc))"
    by (simp add: as_revenueGrowth_def case_prod_beta Let_def)
  finally show ?thesis by (simp add: as_quality_def)
qed

lemma scoreFounderConviction_range:
  "0 \<le> score (scoreFounderConviction c) \<and> score (scoreFounderConviction c) \<le> 10"
proof -
  have "(0::number) = fst (0::number, []::string list)" by simp
  also have "\<dots> \<le> fst (fc_ownership c (0, []))" using fc_ownership_fst by blast
  also have "\<dots> \<le> fst (fc_buying c (fc_ownership c (0, [])))" using fc_buying_fst by blast
  also have "\<dots> \<le> fst (fc_founder c (fc_buying c (fc_ownership c (0, []))))"
    using fc_founder_fst by blast
  finally show ?thesis by (simp add: scoreFounderConviction_def score_finish)
qed

lemma scoreAIDisruption_range:
  "0 \<le> score (scoreAIDisruption c) \<and> score (scoreAIDisruption c) \<le> 10"
proof -
  have "(0::number) = fst (0::number, []::string list)" by simp
  also have "\<dots> \<le> fst (ai_category c (0, []))" by (rule ai_category_fst)
  also have "\<dots> \<le> fst (ai_tamMultiple c (ai_category c (0, [])))" by (rule ai_tamMultiple_fst)
  also have "\<dots> \<le> fst (ai_technology c (ai_tamMultiple c (ai_category c (0, []))))"
    by (rule ai_technology_fst)
  finally show ?thesis by (simp add: scoreAIDisruption_def score_finish)
qed

lemma scoreWhiteSpace_range:
  "0 \<le> score (scoreWhiteSpace c) \<and> score (scoreWhiteSpace c) \<le> 10"
proof -
  have "(0::number) = fst (0::number, []::string list)" by simp
  also have "\<dots> \<le> fst (ws_currentTAM c (0, []))" by (rule ws_currentTAM_fst)
  also have "\<dots> \<le> fst (ws_capture c (ws_currentTAM c (0, [])))" by (rule ws_capture_fst)
  also have "\<dots> \<le> fst (ws_smallCap c (ws_capture c (ws_currentTAM c (0, []))))"
    by (rule ws_smallCap_fst)
  finally show ?thesis by (simp add: scoreWhiteSpace_def score_finish)
qed

lemma scoreAsymmetry_range:
  "0 \<le> score (scoreAsymmetry c) \<and> score (scoreAsymmetry c) \<le> 10"
proof -
  have "(0::number) = fst (0::number, []::string list)" by simp
  also have "\<dots> \<le> fst (as_potential c (0, []))" by (rule as_potential_fst)
  also have "\<dots> \<le> fst (as_cash c (as_potential c (0, [])))" by (rule as_cash_fst)
  also have "\<dots> \<le> fst (as_debt c (as_cash c (as_potential c (0, []))))" by (rule as_debt_fst)
  also have "\<dots> \<le> fst (as_quality c (as_debt c (as_cash c (as_potential c (0, [])))))"
    by (rule as_quality_fst)
  finally show ?thesis by (simp add: scoreAsymmetry_def score_finish)
qed

text \<open>
  Claim C6. For every company record, whichever optional fields are present, each of
  the four factor scorers returns a score in the closed interval from 0 to 10.
\<close>

theorem factor_scores_in_range:
  "0 \<le> score (scoreFounderConviction c) \<and> score (scoreFounderConviction c) \<le> 10 \<and>
   0 \<le> score (scoreAIDisruption c) \<and> score (scoreAIDisruption c) \<le> 10 \<and>
   0 \<le> score (scoreWhiteSpace c) \<and> score (scoreWhiteSpace c) \<le> 10 \<and>
   0 \<le> score (scoreAsymmetry c) \<and> score (scoreAsymmetry c) \<le> 10"
  using scoreFounderConviction_range [of c] scoreAIDisruption_range [of c]
    scoreWhiteSpace_range [of c] scoreAsymmetry_range [of c]
  by simp

subsection \<open>The white-space example\<close>

text \<open>
  Claim C8. For the record with currentTAM = 500,000,000, futureTAM = 50,000,000,000 and
  marketCap = 200,000,000 and every other optional field absent, scoreWhiteSpace returns
  the score 8: 4 for a current TAM below one billion, 2 for the capture ratio
  0.004, which is below 0.01, and 2 for a market cap below one billion.
\<close>

theorem scoreWhiteSpace_example:
  "ws_currentTAM whiteSpaceExample (0, []) = (4, [''Very small current TAM (<$1B)'']) \<and>
   the (marketCap whiteSpaceExample) / the (futureTAM whiteSpaceExample) = 4 / 1000 \<and>
   fst (ws_capture whiteSpaceExample (4, [])) = 4 + 2 \<and>
   fst (ws_smallCap whiteSpaceExample (6, [])) = 6 + 2 \<and>
   scoreWhiteSpace whiteSpaceExample =
     \<lparr>score = 8,
      rationale = ''Very small current TAM (<$1B). Market cap is <1% of future TAM. Small cap (<$1B) - less institutional attention''\<rparr>"
  by (simp add: whiteSpaceExample_def bareCompany_def scoreWhiteSpace_def ws_currentTAM_def
      ws_capture_def ws_smallCap_def finish_def num_or_def)

subsection \<open>The rationale of the founder conviction score\<close>

lemma prefix_join_head: "prefix h (join sep (h # rest))"
  by (cases rest) simp_all

lemma fc_ownership_snd:
  "snd (fc_ownership c (s, [])) =
     [(let ownership = num_or (insiderOwnership c) 0 in
       (if ownership > 30 then ''High'' else if ownership > 20 then ''Strong''
        else if ownership > 10 then ''Moderate'' else if ownership > 5 then ''Some''
        else ''Low'') @ '' insider ownership ('' @ toFixed ownership 1 @ ''%)'')]"
  by (simp add: fc_ownership_def Let_def)

lemma fc_buying_snd: "\<exists>r. snd (fc_buying c acc) = snd acc @ r"
  by (simp add: fc_buying_def case_prod_beta Let_def)

lemma fc_founder_snd: "\<exists>r. snd (fc_founder c acc) = snd acc @ r"
  by (simp add: fc_founder_def case_prod_beta Let_def)

lemma fc_factors_head:
  "\<exists>r. snd (fc_founder c (fc_buying c (fc_ownership c (0, [])))) =
     (let ownership = num_or (insiderOwnership c) 0 in
       (if ownership > 30 then ''High'' else if ownership > 20 then ''Strong''
        else if ownership > 10 then ''Moderate'' else if ownership > 5 then ''Some''
        else ''Low'') @ '' insider ownership ('' @ toFixed ownership 1 @ ''%)'') # r"
proof -
  obtain r1 where "snd (fc_buying c (fc_ownership c (0, []))) = snd (fc_ownership c (0, [])) @ r1"
    using fc_buying_snd by blast
  moreover obtain r2 where "snd (fc_founder c (fc_buying c (fc_ownership c (0, [])))) =
      snd (fc_buying c (fc_ownership c (0, []))) @ r2"
    using fc_founder_snd by blast
  ultimately show ?thesis
    by (simp add: fc_ownership_snd)
qed

text \<open>
  Claim C10. For every company, the rationale of scoreFounderConviction starts with an
  insider-ownership message, the "Low insider ownership" one when the ownership branch
  adds no point, so the rationale is never the sentinel "Insufficient data".
\<close>

theorem scoreFounderConviction_rationale_ownership:
  "prefix
     (let ownership = num_or (insiderOwnership c) 0 in
       (if ownership > 30 then ''High'' else if ownership > 20 then ''Strong''
        else if ownership > 10 then ''Moderate'' else if ownership > 5 then ''Some''
        else ''Low'') @ '' insider ownership ('' @ toFixed ownership 1 @ ''%)'')
     (rationale (scoreFounderConviction c)) \<and>
   rationale (scoreFounderConviction c) \<noteq> ''Insufficient data''"
proof -
  let ?msg = "(let ownership = num_or (insiderOwnership c) 0 in
       (if ownership > 30 then ''High'' else if ownership > 20 then ''Strong''
        else if ownership > 10 then ''Moderate'' else if ownership > 5 then ''Some''
        else ''Low'') @ '' insider ownership ('' @ toFixed ownership 1 @ ''%)'')"
  obtain r where r: "snd (fc_founder c (fc_buying c (fc_ownership c (0, [])))) = ?msg # r"
    using fc_factors_head by blast
  then have rat: "rationale (scoreFounderConviction c) = join ''. '' (?msg # r)"
    by (simp add: scoreFounderConviction_def rationale_finish)
  have p: "prefix ?msg (rationale (scoreFounderConviction c))"
    unfolding rat by (rule prefix_join_head)
  have "hd ?msg \<noteq> CHR ''I''" by (simp add: Let_def)
  moreover have "?msg \<noteq> []" by (simp add: Let_def)
  ultimately have "hd (rationale (scoreFounderConviction c)) \<noteq> CHR ''I''"
    using p by (auto simp: prefix_def)
  then have "rationale (scoreFounderConviction c) \<noteq> ''Insufficient data''"
    by auto
  with p show ?thesis by blast
qed

subsection \<open>The disruption score by parts\<close>

lemma ai_category_value:
  "fst (ai_category c acc) = fst acc +
     (case map_of
        [(''intelligence-infrastructure'', 3), (''robotics-autonomous'', 3),
         (''synthetic-biology'', 2), (''materials-simulation'', 3),
         (''advanced-energy'', 2), (''national-security-space'', 2),
         (''other'', 0 :: number)] (futureCategory c)
      of None \<Rightarrow> 0 | Some b \<Rightarrow> b)"
  by (simp add: ai_category_def categoryScores_def num_or_def case_prod_beta Let_def)

lemma ai_tamMultiple_value:
  "fst (ai_tamMultiple c acc) = fst acc +
     (let m = num_or (tamMultiple c) 1 in
      if m > 100 then 4 else if m > 50 then 3 else if m > 20 then 2
      else if m > 10 then 1 else 0)"
  by (simp add: ai_tamMultiple_def case_prod_beta Let_def)

lemma ai_technology_value:
  "fst (ai_technology c acc) = fst acc +
     (if futureCategory c \<in>
          {''intelligence-infrastructure'', ''robotics-autonomous'', ''materials-simulation''}
      then 2
      else if futureCategory c \<in> {''synthetic-biology'', ''advanced-energy''} then 1
      else 0)"
  by (simp add: ai_technology_def case_prod_beta Let_def)

text \<open>
  Claim C7. scoreAIDisruption adds a category base score from the fixed table
  intelligence-infrastructure 3, robotics-autonomous 3, synthetic-biology 2,
  materials-simulation 3, advanced-energy 2, national-security-space 2, other 0;
  the score is that base plus the TAM-multiple points plus the enablement points,
  capped at 10, and the base for materials-simulation is 3.
\<close>

theorem scoreAIDisruption_category_table:
  "score (scoreAIDisruption c) =
     min ((case map_of
             [(''intelligence-infrastructure'', 3), (''robotics-autonomous'', 3),
              (''synthetic-biology'', 2), (''materials-simulation'', 3),
              (''advanced-energy'', 2), (''national-security-space'', 2),
              (''other'', 0 :: number)] (futureCategory c)
           of None \<Rightarrow> 0 | Some b \<Rightarrow> b)
          + (let m = num_or (tamMultiple c) 1 in
             if m > 100 then 4 else if m > 50 then 3 else if m > 20 then 2
             else if m > 10 then 1 else 0)
          + (if futureCategory c \<in>
                {''intelligence-infrastructure'', ''robotics-autonomous'',
                 ''materials-simulation''}
             then 2
             else if futureCategory c \<in> {''synthetic-biology'', ''advanced-energy''} then 1
             else 0)) 10 \<and>
   categoryScores ''materials-simulation'' = Some 3 \<and>
   fst (ai_category (bareCompany ''MSX'' ''materials-simulation'') (0, [])) = 3"
proof -
  have "categoryScores ''materials-simulation'' = Some 3"
    by (simp add: categoryScores_def)
  moreover have "fst (ai_category (bareCompany ''MSX'' ''materials-simulation'') (0, [])) = 3"
    by (simp add: ai_category_value bareCompany_def)
  ultimately show ?thesis
    by (simp only: scoreAIDisruption_def score_finish ai_technology_value
        ai_tamMultiple_value ai_category_value fst_conv) simp
qed

subsection \<open>A company with no optional field\<close>

lemma toFixed_0_1: "toFixed 0 (Suc 0) = ''0.0''"
  by (simp add: toFixed_def digits.simps digit_char_def)

lemma allAbsent_bareCompany: "allAbsent (bareCompany t cat)"
  by (simp add: allAbsent_def bareCompany_def)

lemma scoreFounderConviction_absent:
  "insiderOwnership c = None \<Longrightarrow> insiderBuying90d c = None \<Longrightarrow> founderActive c = None \<Longrightarrow>
   scoreFounderConviction c = \<lparr>score = 0, rationale = ''Low insider ownership (0.0%)''\<rparr>"
  by (simp add: scoreFounderConviction_def fc_ownership_def fc_buying_def fc_founder_def
      finish_def num_or_def toFixed_0_1)

lemma scoreWhiteSpace_absent:
  "currentTAM c = None \<Longrightarrow> futureTAM c = None \<Longrightarrow> marketCap c = None \<Longrightarrow>
   scoreWhiteSpace c = \<lparr>score = 3, rationale = ''Undefined/emerging market''\<rparr>"
  by (simp add: scoreWhiteSpace_def ws_currentTAM_def ws_capture_def ws_smallCap_def
      finish_def num_or_def)

lemma scoreAsymmetry_absent:
  "futureTAM c = None \<Longrightarrow> marketCap c = None \<Longrightarrow> cashPosition c = None \<Longrightarrow>
   debtToEquity c = None \<Longrightarrow> grossMargin c = None \<Longrightarrow> revenueGrowth c = None \<Longrightarrow>
   scoreAsymmetry c = \<lparr>score = 1, rationale = ''Low debt burden''\<rparr>"
  by (simp add: scoreAsymmetry_def as_potential_def as_cash_def as_debt_def as_quality_def
      as_grossMargin_def as_revenueGrowth_def finish_def num_or_def)

lemma scoreAIDisruption_absent_score:
  "tamMultiple c = None \<Longrightarrow>
   score (scoreAIDisruption c) =
     (if futureCategory c \<in>
          {''intelligence-infrastructure'', ''robotics-autonomous'', ''materials-simulation''}
      then 5
      else if futureCategory c \<in> {''synthetic-biology'', ''advanced-energy''} then 3
      else if futureCategory c = ''national-security-space'' then 2
      else 0)"
  by (simp add: scoreAIDisruption_def score_finish ai_category_def ai_tamMultiple_def
      ai_technology_def categoryScores_def num_or_def)

lemma scoreAIDisruption_absent_rationale:
  "tamMultiple c = None \<Longrightarrow>
   (rationale (scoreAIDisruption c) = ''Limited AI disruption potential'') =
   (score (scoreAIDisruption c) = 0)"
  by (simp add: scoreAIDisruption_def score_finish rationale_finish ai_category_def
      ai_tamMultiple_def ai_technology_def categoryScores_def num_or_def)

text \<open>
  Claim C1, amended. For every company in which every optional field is absent:
  scoreFounderConviction returns the score 0 with the rationale
  "Low insider ownership (0.0%)"; scoreWhiteSpace returns 3 with
  "Undefined/emerging market"; scoreAsymmetry returns 1 with "Low debt burden";
  scoreAIDisruption returns the category's base score plus its enablement bonus
  (5, 5, 3, 5, 3 and 2 for the six named categories, 0 for other), and its rationale
  is the sentinel "Limited AI disruption potential" exactly when that score is 0.
\<close>

theorem scorers_all_absent:
  assumes "allAbsent c"
  shows "scoreFounderConviction c =
           \<lparr>score = 0, rationale = ''Low insider ownership (0.0%)''\<rparr> \<and>
         scoreWhiteSpace c = \<lparr>score = 3, rationale = ''Undefined/emerging market''\<rparr> \<and>
         scoreAsymmetry c = \<lparr>score = 1, rationale = ''Low debt burden''\<rparr> \<and>
         score (scoreAIDisruption c) =
           (if futureCategory c \<in>
                {''intelligence-infrastructure'', ''robotics-autonomous'',
                 ''materials-simulation''}
            then 5
            else if futureCategory c \<in> {''synthetic-biology'', ''advanced-energy''} then 3
            else if futureCategory c = ''national-security-space'' then 2
            else 0) \<and>
         ((rationale (scoreAIDisruption c) = ''Limited AI disruption potential'') =
          (score (scoreAIDisruption c) = 0))"
proof -
  from assms have a:
    "insiderOwnership c = None" "insiderBuying90d c = None" "founderActive c = None"
    "currentTAM c = None" "futureTAM c = None" "marketCap c = None"
    "cashPosition c = None" "debtToEquity c = None" "grossMargin c = None"
    "revenueGrowth c = None" "tamMultiple c = None"
    by (simp_all add: allAbsent_def)
  show ?thesis
    using scoreFounderConviction_absent [OF a(1) a(2) a(3)]
      scoreWhiteSpace_absent [OF a(4) a(5) a(6)]
      scoreAsymmetry_absent [OF a(5) a(6) a(7) a(8) a(9) a(10)]
      scoreAIDisruption_absent_score [OF a(11)]
      scoreAIDisruption_absent_rationale [OF a(11)]
    by blast
qed

text \<open>The amended claim C1 at a record of category other.\<close>

theorem scorers_all_absent_witness:
  "allAbsent (bareCompany ''BARE'' ''other'') \<and>
   scoreFounderConviction (bareCompany ''BARE'' ''other'') =
     \<lparr>score = 0, rationale = ''Low insider ownership (0.0%)''\<rparr> \<and>
   scoreWhiteSpace (bareCompany ''BARE'' ''other'') =
     \<lparr>score = 3, rationale = ''Undefined/emerging market''\<rparr> \<and>
   scoreAsymmetry (bareCompany ''BARE'' ''other'') =
     \<lparr>score = 1, rationale = ''Low debt burden''\<rparr> \<and>
   score (scoreAIDisruption (bareCompany ''BARE'' ''other'')) = 0 \<and>
   rationale (scoreAIDisruption (bareCompany ''BARE'' ''other'')) =
     ''Limited AI disruption potential''"
proof -
  have h: "allAbsent (bareCompany ''BARE'' ''other'')"
    by (rule allAbsent_bareCompany)
  have cat: "futureCategory (bareCompany ''BARE'' ''other'') = ''other''"
    by (simp add: bareCompany_def)
  show ?thesis
    using h scorers_all_absent [OF h] by (simp add: cat)
qed

text \<open>
  Claim C1 as stated fails at the record with no optional field and the category
  other: the white-space score is 3, the asymmetry score is 1 and the founder
  conviction rationale is not the sentinel; with the category
  intelligence-infrastructure the disruption score is 5.
\<close>

theorem scorers_all_absent_counterexample:
  "allAbsent (bareCompany ''BARE'' ''other'') \<and>
   \<not> (score (scoreFounderConviction (bareCompany ''BARE'' ''other'')) = 0 \<and>
      rationale (scoreFounderConviction (bareCompany ''BARE'' ''other'')) = ''Insufficient data'' \<and>
      score (scoreAIDisruption (bareCompany ''BARE'' ''other'')) = 0 \<and>
      rationale (scoreAIDisruption (bareCompany ''BARE'' ''other'')) =
        ''Limited AI disruption potential'' \<and>
      score (scoreWhiteSpace (bareCompany ''BARE'' ''other'')) = 0 \<and>
      rationale (scoreWhiteSpace (bareCompany ''BARE'' ''other'')) =
        ''Market positioning unclear'' \<and>
      score (scoreAsymmetry (bareCompany ''BARE'' ''other'')) = 0 \<and>
      rationale (scoreAsymmetry (bareCompany ''BARE'' ''other'')) =
        ''Risk/reward profile unclear'') \<and>
   rationale (scoreFounderConviction (bareCompany ''BARE'' ''other'')) =
     ''Low insider ownership (0.0%)'' \<and>
   score (scoreWhiteSpace (bareCompany ''BARE'' ''other'')) = 3 \<and>
   score (scoreAsymmetry (bareCompany ''BARE'' ''other'')) = 1 \<and>
   allAbsent (bareCompany ''BARE'' ''intelligence-infrastructure'') \<and>
   score (scoreAIDisruption (bareCompany ''BARE'' ''intelligence-infrastructure'')) = 5"
proof -
  have b: "insiderOwnership (bareCompany t cat) = None"
    "insiderBuying90d (bareCompany t cat) = None" "founderActive (bareCompany t cat) = None"
    "currentTAM (bareCompany t cat) = None" "futureTAM (bareCompany t cat) = None"
    "marketCap (bareCompany t cat) = None" "cashPosition (bareCompany t cat) = None"
    "debtToEquity (bareCompany t cat) = None" "grossMargin (bareCompany t cat) = None"
    "revenueGrowth (bareCompany t cat) = None" "tamMultiple (bareCompany t cat) = None"
    "futureCategory (bareCompany t cat) = cat"
    for t cat
    by (simp_all add: bareCompany_def)
  show ?thesis
    by (simp add: allAbsent_bareCompany scoreFounderConviction_absent scoreWhiteSpace_absent
        scoreAsymmetry_absent scoreAIDisruption_absent_score b)
qed

subsection \<open>A category outside the enumeration\<close>

lemma ai_category_unknown:
  "futureCategory c \<notin> set FutureCategory_values \<Longrightarrow> ai_category c acc = acc"
  by (simp add: FutureCategory_values_def ai_category_def categoryScores_def num_or_def
      case_prod_beta Let_def)

lemma ai_technology_unknown:
  "futureCategory c \<notin> set FutureCategory_values \<Longrightarrow> ai_technology c acc = acc"
  by (simp add: FutureCategory_values_def ai_technology_def case_prod_beta Let_def)

lemma ai_category_other:
  "futureCategory c = ''other'' \<Longrightarrow> ai_category c acc = acc"
  by (simp add: ai_category_def categoryScores_def num_or_def case_prod_beta Let_def)

lemma ai_technology_other:
  "futureCategory c = ''other'' \<Longrightarrow> ai_technology c acc = acc"
  by (simp add: ai_technology_def case_prod_beta Let_def)

lemma ai_tamMultiple_futureCategory:
  "ai_tamMultiple (c\<lparr>futureCategory := k\<rparr>) acc = ai_tamMultiple c acc"
  by (simp add: ai_tamMultiple_def)

text \<open>
  Claim C3, amended. For every company whose futureCategory is not one of the seven
  enumerated values (and not the name of a property inherited from Object.prototype),
  scoreAIDisruption returns an ordinary result: the category block and the enablement
  block leave score and factors unchanged, so the result is the one for the TAM
  multiple alone, the same as for the category other.
\<close>

theorem scoreAIDisruption_unknown_category:
  assumes "futureCategory c \<notin> set FutureCategory_values"
    and "futureCategory c \<notin> set Object_prototype_keys"
  shows "ai_category c acc = acc \<and> ai_technology c acc = acc \<and>
         scoreAIDisruption c = finish ''Limited AI disruption potential'' (ai_tamMultiple c (0, [])) \<and>
         scoreAIDisruption c = scoreAIDisruption (c\<lparr>futureCategory := ''other''\<rparr>)"
proof -
  have "scoreAIDisruption (c\<lparr>futureCategory := ''other''\<rparr>) =
        finish ''Limited AI disruption potential'' (ai_tamMultiple c (0, []))"
    by (simp add: scoreAIDisruption_def ai_category_other ai_technology_other
        ai_tamMultiple_futureCategory)
  moreover have "scoreAIDisruption c =
        finish ''Limited AI disruption potential'' (ai_tamMultiple c (0, []))"
    by (simp add: scoreAIDisruption_def ai_category_unknown [OF assms(1)]
        ai_technology_unknown [OF assms(1)])
  ultimately show ?thesis
    by (simp add: ai_category_unknown [OF assms(1)] ai_technology_unknown [OF assms(1)])
qed

text \<open>The amended claim C3 at the category quantum-computing.\<close>

theorem scoreAIDisruption_unknown_category_witness:
  "futureCategory unknownCategoryExample \<notin> set FutureCategory_values \<and>
   futureCategory unknownCategoryExample \<notin> set Object_prototype_keys \<and>
   ai_category unknownCategoryExample (0, []) = (0, []) \<and>
   scoreAIDisruption unknownCategoryExample =
     scoreAIDisruption (unknownCategoryExample\<lparr>futureCategory := ''other''\<rparr>)"
proof -
  have h: "futureCategory unknownCategoryExample \<notin> set FutureCategory_values"
    by (simp add: unknownCategoryExample_def bareCompany_def FutureCategory_values_def)
  have p: "futureCategory unknownCategoryExample \<notin> set Object_prototype_keys"
    by (simp add: unknownCategoryExample_def bareCompany_def Object_prototype_keys_def)
  show ?thesis
    using h p scoreAIDisruption_unknown_category [OF h p, of "(0, [])"] by blast
qed

text \<open>
  Claim C3 as stated fails at the category quantum-computing: the scorer returns the
  score 0 with the default rationale, and the aggregate is computed from it.
\<close>

theorem scoreAIDisruption_unknown_category_counterexample:
  "futureCategory unknownCategoryExample = ''quantum-computing'' \<and>
   futureCategory unknownCategoryExample \<notin> set FutureCategory_values \<and>
   scoreAIDisruption unknownCategoryExample =
     \<lparr>score = 0, rationale = ''Limited AI disruption potential''\<rparr> \<and>
   aiDisruption (calculateAsymmetryScore unknownCategoryExample) = 0"
  by (simp add: unknownCategoryExample_def bareCompany_def FutureCategory_values_def
      calculateAsymmetryScore_def calculateAsymmetryScoreWith_def Let_def
      scoreAIDisruption_def ai_category_def ai_tamMultiple_def ai_technology_def
      categoryScores_def finish_def num_or_def)

subsection \<open>The quality bonus\<close>

lemma as_grossMargin_value:
  "fst (as_grossMargin c acc) = fst acc + (if num_or (grossMargin c) 0 > 60 then 1 else 0)"
  by (simp add: as_grossMargin_def case_prod_beta Let_def)

lemma as_revenueGrowth_value:
  "fst (as_revenueGrowth c acc) = fst acc +
     (if num_or (revenueGrowth c) 0 > 30 then 1
      else if num_or (revenueGrowth c) 0 > 15 then 1 / 2 else 0)"
  by (simp add: as_revenueGrowth_def case_prod_beta Let_def)

text \<open>What the two quality blocks add to the score, for every company.\<close>

lemma as_quality_value:
  "fst (as_quality c acc) = fst acc
      + (if num_or (grossMargin c) 0 > 60 then 1 else 0)
      + (if num_or (revenueGrowth c) 0 > 30 then 1
         else if num_or (revenueGrowth c) 0 > 15 then 1 / 2 else 0)"
  by (simp add: as_quality_def as_grossMargin_value as_revenueGrowth_value)

lemma digits_6500: "digits 6500 = ''6500''"
  by (simp add: digits.simps digit_char_def)

lemma digits_3500: "digits 3500 = ''3500''"
  by (simp add: digits.simps digit_char_def)

lemma floor_quality_examples:
  "\<lfloor>(13001 :: number) / 2\<rfloor> = 6500" "\<lfloor>(7001 :: number) / 2\<rfloor> = 3500"
  by (simp_all add: floor_eq_iff)

text \<open>
  Claim C4 says that the quality bonus of scoreAsymmetry uses thresholds on the
  fraction scale, so that grossMargin 0.65 and revenueGrowth 0.35 earn 2. The code at
  that input: the two quality blocks compare against 60 and 30, add nothing and push
  no message, and the score 1 comes from the debt block alone. The same blocks print
  the value times 100 with a percent sign, so they read the fields as fractions when
  they print: at grossMargin 65 and revenueGrowth 35, the smallest whole numbers that
  earn both points, the messages say 6500% and 3500%.
\<close>

theorem scoreAsymmetry_quality_bonus_fraction_input:
  "grossMargin fractionExample = Some (65 / 100) \<and>
   revenueGrowth fractionExample = Some (35 / 100) \<and>
   as_quality fractionExample (0, []) = (0, []) \<and>
   scoreAsymmetry fractionExample = \<lparr>score = 1, rationale = ''Low debt burden''\<rparr> \<and>
   as_quality percentExample (0, []) =
     (2, [''High gross margins (6500%)'', ''Strong revenue growth (3500%)''])"
proof -
  have "as_quality percentExample (0, []) =
      (2, [''High gross margins (6500%)'', ''Strong revenue growth (3500%)''])"
    by (simp add: percentExample_def bareCompany_def as_quality_def as_grossMargin_def
        as_revenueGrowth_def num_or_def toFixed_def floor_quality_examples digits_6500
        digits_3500)
  moreover have "grossMargin fractionExample = Some (65 / 100) \<and>
      revenueGrowth fractionExample = Some (35 / 100) \<and>
      as_quality fractionExample (0, []) = (0, []) \<and>
      scoreAsymmetry fractionExample = \<lparr>score = 1, rationale = ''Low debt burden''\<rparr>"
    by (simp add: fractionExample_def bareCompany_def scoreAsymmetry_def as_potential_def
        as_cash_def as_debt_def as_quality_def as_grossMargin_def as_revenueGrowth_def
        finish_def num_or_def)
  ultimately show ?thesis by blast
qed

subsection \<open>The stable sort\<close>

lemma mset_insert_cmp: "mset (insert_cmp cmp x ys) = add_mset x (mset ys)"
  by (induction ys) simp_all

lemma mset_array_sort: "mset (array_sort cmp xs) = mset xs"
  unfolding array_sort_def by (induction xs) (simp_all add: mset_insert_cmp)

lemma set_array_sort: "set (array_sort cmp xs) = set xs"
  using mset_array_sort [of cmp xs] by (metis set_mset_mset)

lemma sorted_insert_cmp:
  assumes cmp: "\<And>a b. (cmp a b \<le> 0) = (key b \<le> (key a :: number))"
    and ys: "sorted_wrt (\<lambda>a b. key b \<le> key a) ys"
  shows "sorted_wrt (\<lambda>a b. key b \<le> key a) (insert_cmp cmp x ys)"
  using ys
proof (induction ys)
  case Nil
  show ?case by simp
next
  case (Cons y ys)
  show ?case
  proof (cases "cmp x y \<le> 0")
    case True
    then have "key y \<le> key x" by (simp add: cmp)
    with Cons.prems True show ?thesis by auto
  next
    case False
    then have "key x \<le> key y" using cmp [of x y] by simp
    moreover have "set (insert_cmp cmp x ys) = insert x (set ys)"
      using mset_insert_cmp [of cmp x ys] by (metis set_mset_mset set_mset_add_mset_insert)
    ultimately show ?thesis using Cons False by simp
  qed
qed

lemma sorted_array_sort:
  assumes "\<And>a b. (cmp a b \<le> 0) = (key b \<le> (key a :: number))"
  shows "sorted_wrt (\<lambda>a b. key b \<le> key a) (array_sort cmp xs)"
  unfolding array_sort_def
  by (induction xs) (simp_all add: sorted_insert_cmp [OF assms])

lemma filter_insert_cmp:
  assumes cmp: "\<And>a b. (cmp a b \<le> 0) = (key b \<le> (key a :: number))"
  shows "filter (\<lambda>c. key c = k) (insert_cmp cmp x ys) =
         (if key x = k then x # filter (\<lambda>c. key c = k) ys else filter (\<lambda>c. key c = k) ys)"
proof (induction ys)
  case Nil
  show ?case by simp
next
  case (Cons y ys)
  show ?case
  proof (cases "cmp x y \<le> 0")
    case True
    then show ?thesis by simp
  next
    case False
    then have "key y \<noteq> key x" using cmp [of x y] by auto
    with False Cons show ?thesis by auto
  qed
qed

lemma filter_array_sort:
  assumes "\<And>a b. (cmp a b \<le> 0) = (key b \<le> (key a :: number))"
  shows "filter (\<lambda>c. key c = k) (array_sort cmp xs) = filter (\<lambda>c. key c = k) xs"
  unfolding array_sort_def
  by (induction xs) (simp_all add: filter_insert_cmp [OF assms])

lemma rank_cmp_key: "(rank_cmp a b \<le> 0) = (totalOr0 b \<le> totalOr0 a)"
  by (simp add: rank_cmp_def)

subsection \<open>The scorers do not read the field scores\<close>

lemma fc_blocks_scores:
  "fc_ownership (c\<lparr>scores := x\<rparr>) = fc_ownership c"
  "fc_buying (c\<lparr>scores := x\<rparr>) = fc_buying c"
  "fc_founder (c\<lparr>scores := x\<rparr>) = fc_founder c"
  by (simp_all add: fc_ownership_def fc_buying_def fc_founder_def cong: if_cong)

lemma ai_blocks_scores:
  "ai_category (c\<lparr>scores := x\<rparr>) = ai_category c"
  "ai_tamMultiple (c\<lparr>scores := x\<rparr>) = ai_tamMultiple c"
  "ai_technology (c\<lparr>scores := x\<rparr>) = ai_technology c"
  by (simp_all add: ai_category_def ai_tamMultiple_def ai_technology_def cong: if_cong)

lemma ws_blocks_scores:
  "ws_currentTAM (c\<lparr>scores := x\<rparr>) = ws_currentTAM c"
  "ws_capture (c\<lparr>scores := x\<rparr>) = ws_capture c"
  "ws_smallCap (c\<lparr>scores := x\<rparr>) = ws_smallCap c"
  by (simp_all add: ws_currentTAM_def ws_capture_def ws_smallCap_def cong: if_cong)

lemma as_blocks_scores:
  "as_potential (c\<lparr>scores := x\<rparr>) = as_potential c"
  "as_cash (c\<lparr>scores := x\<rparr>) = as_cash c"
  "as_debt (c\<lparr>scores := x\<rparr>) = as_debt c"
  "as_grossMargin (c\<lparr>scores := x\<rparr>) = as_grossMargin c"
  "as_revenueGrowth (c\<lparr>scores := x\<rparr>) = as_revenueGrowth c"
  by (simp_all add: as_potential_def as_cash_def as_debt_def as_grossMargin_def
      as_revenueGrowth_def cong: if_cong)

lemma scorers_scores:
  "scoreFounderConviction (c\<lparr>scores := x\<rparr>) = scoreFounderConviction c"
  "scoreAIDisruption (c\<lparr>scores := x\<rparr>) = scoreAIDisruption c"
  "scoreWhiteSpace (c\<lparr>scores := x\<rparr>) = scoreWhiteSpace c"
  "scoreAsymmetry (c\<lparr>scores := x\<rparr>) = scoreAsymmetry c"
  by (simp_all only: scoreFounderConviction_def scoreAIDisruption_def scoreWhiteSpace_def
      scoreAsymmetry_def as_quality_def fc_blocks_scores ai_blocks_scores ws_blocks_scores
      as_blocks_scores)

lemma calculateAsymmetryScore_withScores:
  "calculateAsymmetryScore (withScores c) = calculateAsymmetryScore c"
  by (simp add: calculateAsymmetryScore_def calculateAsymmetryScoreWith_def withScores_def
      scorers_scores)

subsection \<open>The ranking\<close>

lemma totalOr0_withScores: "totalOr0 (withScores c) = total (calculateAsymmetryScore c)"
  by (simp add: totalOr0_def withScores_def num_or_def)

lemma totalOr0_ranked:
  assumes "c \<in> set (rankCompanies cs)"
  shows "totalOr0 c = total (calculateAsymmetryScore c)"
proof -
  from assms obtain c0 where "c = withScores c0"
    by (auto simp: rankCompanies_def set_array_sort)
  then show ?thesis
    by (simp add: totalOr0_withScores calculateAsymmetryScore_withScores)
qed

text \<open>
  Claim C2, amended. The output of rankCompanies is sorted by the total of the
  asymmetry score, descending, and records with equal totals keep the order they have
  in the input (the sort is stable and does not look at the ticker); in particular
  two input records with equal totals come out in input order.
\<close>

theorem rankCompanies_sorted_stable:
  "sorted_wrt (\<lambda>a b. total (calculateAsymmetryScore b) \<le> total (calculateAsymmetryScore a))
     (rankCompanies cs) \<and>
   filter (\<lambda>c. total (calculateAsymmetryScore c) = k) (rankCompanies cs) =
     map withScores (filter (\<lambda>c. total (calculateAsymmetryScore c) = k) cs) \<and>
   (total (calculateAsymmetryScore a) = total (calculateAsymmetryScore b) \<longrightarrow>
      rankCompanies [a, b] = [withScores a, withScores b])"
proof -
  have "sorted_wrt (\<lambda>a b. totalOr0 b \<le> totalOr0 a) (rankCompanies cs)"
    unfolding rankCompanies_def by (rule sorted_array_sort [OF rank_cmp_key])
  then have s: "sorted_wrt
      (\<lambda>a b. total (calculateAsymmetryScore b) \<le> total (calculateAsymmetryScore a))
      (rankCompanies cs)"
    by (rule sorted_wrt_mono_rel [rotated]) (simp add: totalOr0_ranked)
  have "filter (\<lambda>c. total (calculateAsymmetryScore c) = k) (rankCompanies cs) =
        filter (\<lambda>c. totalOr0 c = k) (rankCompanies cs)"
    by (rule filter_cong) (simp_all add: totalOr0_ranked)
  also have "\<dots> = filter (\<lambda>c. totalOr0 c = k) (map withScores cs)"
    unfolding rankCompanies_def by (rule filter_array_sort [OF rank_cmp_key])
  also have "\<dots> = map withScores (filter (\<lambda>c. total (calculateAsymmetryScore c) = k) cs)"
    by (simp add: filter_map o_def totalOr0_withScores)
  finally have f: "filter (\<lambda>c. total (calculateAsymmetryScore c) = k) (rankCompanies cs) =
     map withScores (filter (\<lambda>c. total (calculateAsymmetryScore c) = k) cs)" .
  have "rankCompanies [a, b] = [withScores a, withScores b]"
    if "total (calculateAsymmetryScore a) = total (calculateAsymmetryScore b)"
    using that
    by (simp add: rankCompanies_def array_sort_def rank_cmp_def totalOr0_withScores)
  with s f show ?thesis by blast
qed

lemma sevenExample_total: "total (calculateAsymmetryScore (sevenExample t)) = 7"
  by (simp add: sevenExample_def bareCompany_def calculateAsymmetryScore_def
      calculateAsymmetryScoreWith_def SCORE_WEIGHTS_def weightedAverage_def round1_def
      Math_round_def
      scoreFounderConviction_def fc_ownership_def fc_buying_def fc_founder_def
      scoreAIDisruption_def ai_category_def ai_tamMultiple_def ai_technology_def
      categoryScores_def
      scoreWhiteSpace_def ws_currentTAM_def ws_capture_def ws_smallCap_def
      scoreAsymmetry_def as_potential_def as_cash_def as_debt_def as_quality_def
      as_grossMargin_def as_revenueGrowth_def finish_def num_or_def floor_eq_iff)

lemma ticker_withScores: "ticker (withScores c) = ticker c"
  by (simp add: withScores_def)

lemma scores_withScores: "scores (withScores c) = Some (calculateAsymmetryScore c)"
  by (simp add: withScores_def)

text \<open>The amended claim C2 at two records of total 7.0 with the tickers ZZZ and AAA.\<close>

theorem rankCompanies_sorted_stable_witness:
  "total (calculateAsymmetryScore (sevenExample ''ZZZ'')) =
     total (calculateAsymmetryScore (sevenExample ''AAA'')) \<and>
   rankCompanies [sevenExample ''ZZZ'', sevenExample ''AAA''] =
     [withScores (sevenExample ''ZZZ''), withScores (sevenExample ''AAA'')]"
  using rankCompanies_sorted_stable [of "[]" 0 "sevenExample ''ZZZ''" "sevenExample ''AAA''"]
  by (simp add: sevenExample_total)

text \<open>
  Claim C2 as stated fails for the input ZZZ, AAA with both totals 7.0: the output
  has ZZZ before AAA.
\<close>

theorem rankCompanies_tie_counterexample:
  "map (\<lambda>c. (ticker c, map_option total (scores c)))
     (rankCompanies [sevenExample ''ZZZ'', sevenExample ''AAA'']) =
   [(''ZZZ'', Some 7), (''AAA'', Some 7)]"
proof -
  have "rankCompanies [sevenExample ''ZZZ'', sevenExample ''AAA''] =
     [withScores (sevenExample ''ZZZ''), withScores (sevenExample ''AAA'')]"
    by (simp add: rankCompanies_def array_sort_def rank_cmp_def totalOr0_withScores
        sevenExample_total)
  then show ?thesis
    by (simp add: ticker_withScores scores_withScores sevenExample_total)
       (simp add: sevenExample_def bareCompany_def)
qed

text \<open>
  Claim C9. For every input list, the output of rankCompanies has the records of the
  input, each once and with its score attached: the same length, the same multiset of
  tickers, and the same multiset of records once the field scores is blanked.
\<close>

theorem rankCompanies_permutation:
  "mset (rankCompanies cs) = mset (map withScores cs) \<and>
   length (rankCompanies cs) = length cs \<and>
   mset (map ticker (rankCompanies cs)) = mset (map ticker cs) \<and>
   mset (map (\<lambda>c. c\<lparr>scores := None\<rparr>) (rankCompanies cs)) =
     mset (map (\<lambda>c. c\<lparr>scores := None\<rparr>) cs)"
proof -
  have m: "mset (rankCompanies cs) = mset (map withScores cs)"
    by (simp add: rankCompanies_def mset_array_sort)
  then have "size (mset (rankCompanies cs)) = size (mset (map withScores cs))" by simp
  then have l: "length (rankCompanies cs) = length cs" by simp
  have "mset (map ticker (rankCompanies cs)) = image_mset ticker (mset (map withScores cs))"
    using m by (metis mset_map)
  then have t: "mset (map ticker (rankCompanies cs)) = mset (map ticker cs)"
    by (simp add: multiset.map_comp o_def ticker_withScores)
  have "mset (map (\<lambda>c. c\<lparr>scores := None\<rparr>) (rankCompanies cs)) =
        image_mset (\<lambda>c. c\<lparr>scores := None\<rparr>) (mset (map withScores cs))"
    using m by (metis mset_map)
  then have r: "mset (map (\<lambda>c. c\<lparr>scores := None\<rparr>) (rankCompanies cs)) =
     mset (map (\<lambda>c. c\<lparr>scores := None\<rparr>) cs)"
    by (simp add: multiset.map_comp o_def withScores_def)
  from m l t r show ?thesis by blast
qed

subsection \<open>The total of the aggregate score\<close>

lemma floor_int_add_half: "\<lfloor>(of_int n :: number) + 1 / 2\<rfloor> = n"
  by (rule floor_unique) simp_all

lemma round1_nonneg_spec:
  assumes "0 \<le> x"
  shows "round1 x = round1_spec x"
proof (cases "x = 0")
  case True
  then show ?thesis
    by (simp add: round1_def round1_spec_def Math_round_def roundHalfAwayFromZero_def
        floor_eq_iff)
next
  case False
  with assms have "0 < x" by simp
  then show ?thesis
    by (simp add: round1_def round1_spec_def Math_round_def roundHalfAwayFromZero_def)
qed

lemma round1_range:
  assumes "0 \<le> x" and "x \<le> 10"
  shows "0 \<le> round1 x \<and> round1 x \<le> 10"
proof -
  have "0 \<le> \<lfloor>x * 10 + 1 / 2\<rfloor>" using assms(1) by simp
  moreover have "\<lfloor>x * 10 + 1 / 2\<rfloor> \<le> 100"
  proof -
    have "x * 10 + 1 / 2 < of_int 101" using assms(2) by simp
    then have "\<lfloor>x * 10 + 1 / 2\<rfloor> < 101" by (simp only: floor_less_iff)
    then show ?thesis by simp
  qed
  ultimately show ?thesis
    by (simp add: round1_def Math_round_def)
qed

lemma round1_idem: "round1 (round1 x) = round1 x"
  by (simp add: round1_def Math_round_def floor_int_add_half)

lemma roundHalfAwayFromZero_of_int: "roundHalfAwayFromZero (of_int k) = of_int k"
proof -
  have "\<lfloor>\<bar>of_int k :: number\<bar> + 1 / 2\<rfloor> = \<bar>k\<bar>"
    using floor_int_add_half [of "\<bar>k\<bar>"] by simp
  then show ?thesis
    by (simp add: roundHalfAwayFromZero_def sgn_if)
qed

lemma roundHalfAwayFromZero_int: "\<exists>k::int. roundHalfAwayFromZero x = of_int k"
proof -
  have "roundHalfAwayFromZero x =
      of_int ((if x < 0 then - 1 else if x = 0 then 0 else 1) * \<lfloor>\<bar>x\<bar> + 1 / 2\<rfloor>)"
    by (simp add: roundHalfAwayFromZero_def sgn_if)
  then show ?thesis by blast
qed

lemma round1_spec_idem: "round1_spec (round1_spec x) = round1_spec x"
proof -
  obtain k :: int where k: "roundHalfAwayFromZero (x * 10) = of_int k"
    using roundHalfAwayFromZero_int by blast
  show ?thesis
    by (simp add: round1_spec_def k roundHalfAwayFromZero_of_int)
qed

lemma weightedAverage_range:
  assumes nn: "0 \<le> w_founderConviction w" "0 \<le> w_aiDisruption w"
      "0 \<le> w_whiteSpace w" "0 \<le> w_asymmetry w"
    and nz: "\<not> (w_founderConviction w = 0 \<and> w_aiDisruption w = 0 \<and>
                 w_whiteSpace w = 0 \<and> w_asymmetry w = 0)"
    and r: "0 \<le> f" "f \<le> 10" "0 \<le> a" "a \<le> 10" "0 \<le> s" "s \<le> 10" "0 \<le> y" "y \<le> 10"
  shows "0 \<le> weightedAverage w f a s y \<and> weightedAverage w f a s y \<le> 10"
proof -
  let ?W = "w_founderConviction w + w_aiDisruption w + w_whiteSpace w + w_asymmetry w"
  let ?N = "f * w_founderConviction w + a * w_aiDisruption w
              + s * w_whiteSpace w + y * w_asymmetry w"
  have W: "0 < ?W" using nn nz by linarith
  have lo: "0 \<le> f * w_founderConviction w" "0 \<le> a * w_aiDisruption w"
      "0 \<le> s * w_whiteSpace w" "0 \<le> y * w_asymmetry w"
    using nn r by simp_all
  have hi: "f * w_founderConviction w \<le> 10 * w_founderConviction w"
      "a * w_aiDisruption w \<le> 10 * w_aiDisruption w"
      "s * w_whiteSpace w \<le> 10 * w_whiteSpace w"
      "y * w_asymmetry w \<le> 10 * w_asymmetry w"
    using nn r by (simp_all add: mult_right_mono)
  have "0 \<le> ?N" using lo by linarith
  moreover have "?N \<le> 10 * ?W" using hi by (simp add: distrib_left)
  ultimately have "0 \<le> ?N / ?W" and "?N / ?W \<le> 10"
    using W by (simp_all add: pos_divide_le_eq)
  then show ?thesis by (simp add: weightedAverage_def)
qed

lemma total_calculateAsymmetryScoreWith:
  "total (calculateAsymmetryScoreWith w c) =
     round1 (weightedAverage w (score (scoreFounderConviction c)) (score (scoreAIDisruption c))
       (score (scoreWhiteSpace c)) (score (scoreAsymmetry c)))"
  by (simp add: calculateAsymmetryScoreWith_def Let_def)

lemma weightedAverage_default:
  "weightedAverage SCORE_WEIGHTS f a s y = (f + a + s + y) / 4"
  by (simp add: weightedAverage_def SCORE_WEIGHTS_def)

lemma sevenExample_scores:
  "score (scoreFounderConviction (sevenExample t)) = 7"
  "score (scoreAIDisruption (sevenExample t)) = 9"
  "score (scoreWhiteSpace (sevenExample t)) = 8"
  "score (scoreAsymmetry (sevenExample t)) = 4"
  by (simp_all add: sevenExample_def bareCompany_def
      scoreFounderConviction_def fc_ownership_def fc_buying_def fc_founder_def
      scoreAIDisruption_def ai_category_def ai_tamMultiple_def ai_technology_def
      categoryScores_def
      scoreWhiteSpace_def ws_currentTAM_def ws_capture_def ws_smallCap_def
      scoreAsymmetry_def as_potential_def as_cash_def as_debt_def as_quality_def
      as_grossMargin_def as_revenueGrowth_def finish_def num_or_def)

text \<open>
  Claim C5. The total of calculateAsymmetryScore is the weighted arithmetic mean of the
  four factor scores, the sum of score times weight divided by the sum of the weights
  (the plain mean with the default weights of 1.0), rounded to one decimal place with
  ties away from zero. Whenever the four factor scores are between 0 and 10 and the
  weights are non-negative and not all zero, the total is between 0 and 10. Rounding
  to one decimal place is idempotent. (Arithmetic is exact, on rationals.)
\<close>

theorem calculateAsymmetryScore_total:
  assumes nn: "0 \<le> w_founderConviction w" "0 \<le> w_aiDisruption w"
      "0 \<le> w_whiteSpace w" "0 \<le> w_asymmetry w"
    and nz: "\<not> (w_founderConviction w = 0 \<and> w_aiDisruption w = 0 \<and>
                 w_whiteSpace w = 0 \<and> w_asymmetry w = 0)"
    and r: "0 \<le> f" "f \<le> 10" "0 \<le> a" "a \<le> 10" "0 \<le> s" "s \<le> 10" "0 \<le> y" "y \<le> 10"
  shows "total (calculateAsymmetryScoreWith w c) =
           round1_spec
             ((score (scoreFounderConviction c) * w_founderConviction w
                + score (scoreAIDisruption c) * w_aiDisruption w
                + score (scoreWhiteSpace c) * w_whiteSpace w
                + score (scoreAsymmetry c) * w_asymmetry w)
              / (w_founderConviction w + w_aiDisruption w + w_whiteSpace w
                   + w_asymmetry w)) \<and>
         0 \<le> total (calculateAsymmetryScoreWith w c) \<and>
         total (calculateAsymmetryScoreWith w c) \<le> 10 \<and>
         total (calculateAsymmetryScore c) =
           round1_spec ((score (scoreFounderConviction c) + score (scoreAIDisruption c)
             + score (scoreWhiteSpace c) + score (scoreAsymmetry c)) / 4) \<and>
         weightedAverage w f a s y =
           (f * w_founderConviction w + a * w_aiDisruption w + s * w_whiteSpace w
              + y * w_asymmetry w)
           / (w_founderConviction w + w_aiDisruption w + w_whiteSpace w + w_asymmetry w) \<and>
         round1 (weightedAverage w f a s y) =
           round1_spec
             ((f * w_founderConviction w + a * w_aiDisruption w + s * w_whiteSpace w
                 + y * w_asymmetry w)
              / (w_founderConviction w + w_aiDisruption w + w_whiteSpace w
                   + w_asymmetry w)) \<and>
         0 \<le> round1 (weightedAverage w f a s y) \<and>
         round1 (weightedAverage w f a s y) \<le> 10 \<and>
         round1 (round1 x) = round1 x \<and>
         round1_spec (round1_spec x) = round1_spec x"
proof -
  let ?f = "score (scoreFounderConviction c)" and ?a = "score (scoreAIDisruption c)"
    and ?s = "score (scoreWhiteSpace c)" and ?y = "score (scoreAsymmetry c)"
  have g: "0 \<le> weightedAverage w f a s y \<and> weightedAverage w f a s y \<le> 10"
    by (rule weightedAverage_range [OF nn nz r])
  have sc: "0 \<le> ?f" "?f \<le> 10" "0 \<le> ?a" "?a \<le> 10" "0 \<le> ?s" "?s \<le> 10" "0 \<le> ?y" "?y \<le> 10"
    using scoreFounderConviction_range [of c] scoreAIDisruption_range [of c]
      scoreWhiteSpace_range [of c] scoreAsymmetry_range [of c] by simp_all
  have e: "0 \<le> weightedAverage w ?f ?a ?s ?y \<and> weightedAverage w ?f ?a ?s ?y \<le> 10"
    by (rule weightedAverage_range [OF nn nz sc])
  have d: "0 \<le> (?f + ?a + ?s + ?y) / 4" using sc by simp
  have 1: "round1 (weightedAverage w f a s y) = round1_spec (weightedAverage w f a s y)"
    using g by (simp add: round1_nonneg_spec)
  have 2: "0 \<le> round1 (weightedAverage w f a s y) \<and> round1 (weightedAverage w f a s y) \<le> 10"
    using g by (simp add: round1_range)
  have 3: "total (calculateAsymmetryScoreWith w c) =
      round1_spec (weightedAverage w ?f ?a ?s ?y)"
    using e by (simp add: total_calculateAsymmetryScoreWith round1_nonneg_spec)
  have 4: "0 \<le> total (calculateAsymmetryScoreWith w c) \<and>
      total (calculateAsymmetryScoreWith w c) \<le> 10"
    using e by (simp add: total_calculateAsymmetryScoreWith round1_range)
  have 5: "total (calculateAsymmetryScore c) = round1_spec ((?f + ?a + ?s + ?y) / 4)"
    using d by (simp add: calculateAsymmetryScore_def total_calculateAsymmetryScoreWith
        weightedAverage_default round1_nonneg_spec)
  from 1 2 3 4 5 round1_idem [of x] round1_spec_idem [of x] show ?thesis
    unfolding weightedAverage_def by blast
qed

text \<open>
  Claim C5 at the weights 2, 1, 1, 0, the record with the factor scores 7, 9, 8, 4
  (weighted mean 31/4, total 7.8; the plain mean would give 7.0), the free scores
  7, 9, 8, 3 and the value 3.375.
\<close>

theorem calculateAsymmetryScore_total_witness:
  "0 \<le> w_founderConviction unevenWeights \<and> 0 \<le> w_aiDisruption unevenWeights \<and>
   0 \<le> w_whiteSpace unevenWeights \<and> 0 \<le> w_asymmetry unevenWeights \<and>
   \<not> (w_founderConviction unevenWeights = 0 \<and> w_aiDisruption unevenWeights = 0 \<and>
      w_whiteSpace unevenWeights = 0 \<and> w_asymmetry unevenWeights = 0) \<and>
   total (calculateAsymmetryScoreWith unevenWeights (sevenExample ''AAA'')) =
     round1_spec (31 / 4) \<and>
   total (calculateAsymmetryScoreWith unevenWeights (sevenExample ''AAA'')) = 78 / 10 \<and>
   total (calculateAsymmetryScore (sevenExample ''AAA'')) = round1_spec (28 / 4) \<and>
   weightedAverage unevenWeights 7 9 8 3 = 31 / 4 \<and>
   round1 (weightedAverage unevenWeights 7 9 8 3) = round1_spec (31 / 4) \<and>
   round1 (weightedAverage unevenWeights 7 9 8 3) \<le> 10 \<and>
   round1 (round1 (27 / 8)) = round1 (27 / 8)"
proof -
  have nn: "0 \<le> w_founderConviction unevenWeights" "0 \<le> w_aiDisruption unevenWeights"
      "0 \<le> w_whiteSpace unevenWeights" "0 \<le> w_asymmetry unevenWeights"
    by (simp_all add: unevenWeights_def)
  have nz: "\<not> (w_founderConviction unevenWeights = 0 \<and> w_aiDisruption unevenWeights = 0 \<and>
      w_whiteSpace unevenWeights = 0 \<and> w_asymmetry unevenWeights = 0)"
    by (simp add: unevenWeights_def)
  have r: "(0::number) \<le> 7" "(7::number) \<le> 10" "(0::number) \<le> 9" "(9::number) \<le> 10"
      "(0::number) \<le> 8" "(8::number) \<le> 10" "(0::number) \<le> 3" "(3::number) \<le> 10"
    by simp_all
  have w: "w_founderConviction unevenWeights = 2" "w_aiDisruption unevenWeights = 1"
      "w_whiteSpace unevenWeights = 1" "w_asymmetry unevenWeights = 0"
    by (simp_all add: unevenWeights_def)
  have v: "round1_spec (31 / 4) = 78 / 10"
    by (simp add: round1_spec_def roundHalfAwayFromZero_def floor_eq_iff)
  have t: "total (calculateAsymmetryScoreWith unevenWeights (sevenExample ''AAA'')) =
      round1_spec (31 / 4)"
    using calculateAsymmetryScore_total [OF nn nz r, of "sevenExample ''AAA''" "27 / 8"]
    by (simp add: w sevenExample_scores)
  have rest: "total (calculateAsymmetryScore (sevenExample ''AAA'')) = round1_spec (28 / 4) \<and>
      weightedAverage unevenWeights 7 9 8 3 = 31 / 4 \<and>
      round1 (weightedAverage unevenWeights 7 9 8 3) = round1_spec (31 / 4) \<and>
      round1 (weightedAverage unevenWeights 7 9 8 3) \<le> 10 \<and>
      round1 (round1 (27 / 8)) = round1 (27 / 8)"
    using calculateAsymmetryScore_total [OF nn nz r, of "sevenExample ''AAA''" "27 / 8"]
    by (simp add: w sevenExample_scores)
  from nn nz t v rest show ?thesis by simp
qed

end
